theory Spec2Isabelle
  imports Main
begin

section \<open>Values handed to the logger\<close>

text \<open>
  The facade takes its key-values as \<^verbatim>\<open>...interface{}\<close>. The values that occur in the
  package and in its callers are strings, integers, error values and, where a slice is
  passed as one argument, a slice of values.
\<close>

datatype val = S string | I int | E string | L "val list"

text \<open>The constants of the package.\<close>

definition LevelDebug :: string where "LevelDebug = ''debug''"
definition LevelInfo :: string where "LevelInfo = ''info''"
definition LevelWarning :: string where "LevelWarning = ''warning''"
definition LevelError :: string where "LevelError = ''error''"
definition MessageKey :: string where "MessageKey = ''message''"
definition EnvironmentVariable :: string where "EnvironmentVariable = ''LOG_LEVEL''"

section \<open>The level package\<close>

text \<open>
  The facade imports the package \<^verbatim>\<open>github.com/go-godin/log/level\<close> of this repository, whose
  source is missing. Its severities and its options are named as the facade names them:
  \<^verbatim>\<open>level.Debug\<close>, \<^verbatim>\<open>level.Info\<close>, \<^verbatim>\<open>level.Warn\<close> and \<^verbatim>\<open>level.Error\<close> mark a record with a
  severity; \<^verbatim>\<open>level.AllowAll()\<close> to \<^verbatim>\<open>level.AllowError()\<close> are the options of a filter.
\<close>

datatype levelValue = DebugValue | InfoValue | WarnValue | ErrorValue

datatype level_Option = AllowAll | AllowDebug | AllowInfo | AllowWarn | AllowError

text \<open>
  Modelled from the spec: the order of the severities of the missing package level.
  "Severity: an enumerated value {Debug, Info, Warning, Error}, totally ordered
  Debug < Info < Warning < Error".
\<close>

fun rank :: "levelValue \<Rightarrow> nat" where
  "rank DebugValue = 0"
| "rank InfoValue = 1"
| "rank WarnValue = 2"
| "rank ErrorValue = 3"

text \<open>
  Modelled from the spec: the minimum severity of each option of the missing package level.
  A filter is "derived from a requested minimum Severity"; "allow all" is "equivalent to
  Debug".
\<close>

fun minimum :: "level_Option \<Rightarrow> levelValue" where
  "minimum AllowAll = DebugValue"
| "minimum AllowDebug = DebugValue"
| "minimum AllowInfo = InfoValue"
| "minimum AllowWarn = WarnValue"
| "minimum AllowError = ErrorValue"

text \<open>
  Modelled from the spec: the test of the filter of the missing package level. "A record is
  accepted iff its Severity \<ge> the filter's minimum".
\<close>

definition allowed :: "level_Option \<Rightarrow> levelValue \<Rightarrow> bool" where
  "allowed opt v = (rank (minimum opt) \<le> rank v)"

section \<open>The sink\<close>

text \<open>
  A \<^verbatim>\<open>log.Logger\<close> of go-kit, as the facade builds it: the JSON logger on standard output,
  wrapped by \<^verbatim>\<open>level.NewFilter\<close> and by \<^verbatim>\<open>log.With\<close>.
\<close>

datatype kitLogger =
    JSONLogger
  | Filter kitLogger level_Option
  | Context kitLogger "val list"

text \<open>
  Modelled from the spec: \<^verbatim>\<open>level.NewFilter\<close> of the missing package level, which puts a
  filter with the given option in front of a logger.
\<close>

definition level_NewFilter :: "kitLogger \<Rightarrow> level_Option \<Rightarrow> kitLogger" where
  "level_NewFilter next opt = Filter next opt"

text \<open>
  \<^verbatim>\<open>log.With\<close> of go-kit returns the logger itself when it is given no key-values, and
  completes an odd number of them with the value \<^verbatim>\<open>ErrMissingValue\<close>, whose text is
  \<^verbatim>\<open>(MISSING)\<close>.
\<close>

definition ErrMissingValue :: val where
  "ErrMissingValue = E ''(MISSING)''"

definition log_With :: "kitLogger \<Rightarrow> val list \<Rightarrow> kitLogger" where
  "log_With logger keyvals =
     (if length keyvals = 0 then logger
      else Context logger (if odd (length keyvals) then keyvals @ [ErrMissingValue] else keyvals))"

text \<open>
  What reaches the writer: the severity the call was made at (none for a plain \<^verbatim>\<open>Log\<close>),
  the fields bound by \<^verbatim>\<open>log.With\<close>, and the key-values of the call.
\<close>

record entry =
  severity :: "levelValue option"
  bound :: "val list"
  pairs :: "val list"

text \<open>
  Modelled from the spec: what a logger does with a record, where the filter is that of the
  missing package level. "The sink itself enforces the configured LevelFilter"; it is
  "silently discarding records below threshold". A record with no severity is not gated.
  A logger with bound fields puts them before the fields bound so far. The result is the
  record the writer gets, or \<open>None\<close> when a filter discards it.
\<close>

fun deliver :: "kitLogger \<Rightarrow> entry \<Rightarrow> entry option" where
  "deliver JSONLogger e = Some e"
| "deliver (Filter next opt) e =
     (case severity e of
        None \<Rightarrow> deliver next e
      | Some v \<Rightarrow> if allowed opt v then deliver next e else None)"
| "deliver (Context next kvs) e = deliver next (e\<lparr>bound := kvs @ bound e\<rparr>)"

text \<open>The fields a logger has bound, outermost binding last.\<close>

fun boundFields :: "kitLogger \<Rightarrow> val list" where
  "boundFields JSONLogger = []"
| "boundFields (Filter next opt) = boundFields next"
| "boundFields (Context next kvs) = boundFields next @ kvs"

text \<open>The highest minimum of the filters a record has to pass, as a rank.\<close>

fun threshold :: "kitLogger \<Rightarrow> nat" where
  "threshold JSONLogger = 0"
| "threshold (Filter next opt) = max (rank (minimum opt)) (threshold next)"
| "threshold (Context next kvs) = threshold next"

section \<open>Calls on the collaborators\<close>

text \<open>
  The facade has no state of its own: what a call does is the sequence of calls it makes
  on the span (\<^verbatim>\<open>Annotate\<close>, \<^verbatim>\<open>Tag\<close>) and on the sink (\<^verbatim>\<open>Log\<close>, on the logger itself or on
  the logger wrapped by \<^verbatim>\<open>level.Debug\<close>, \<^verbatim>\<open>level.Info\<close>, \<^verbatim>\<open>level.Warn\<close>, \<^verbatim>\<open>level.Error\<close>).
  The time stamp of \<^verbatim>\<open>Annotate\<close> is left out. A span is known by a number.
\<close>

type_synonym Span = nat

datatype effect =
    Annotate Span string
  | Tag Span string string
  | SinkLog kitLogger "levelValue option" "val list"

text \<open>The record that one call gets written, if any; and those of a sequence of calls.\<close>

fun emission :: "effect \<Rightarrow> entry option" where
  "emission (SinkLog k sev kvs) = deliver k \<lparr>severity = sev, bound = [], pairs = kvs\<rparr>"
| "emission (Annotate sp m) = None"
| "emission (Tag sp k v) = None"

definition emitted :: "effect list \<Rightarrow> entry list" where
  "emitted es = List.map_filter emission es"

text \<open>The sequence of key-values that a call on the sink hands over.\<close>

fun submitted :: "effect \<Rightarrow> val list option" where
  "submitted (SinkLog k sev kvs) = Some kvs"
| "submitted (Annotate sp m) = None"
| "submitted (Tag sp k v) = None"

text \<open>Whether a call is one on the span.\<close>

fun onSpan :: "effect \<Rightarrow> bool" where
  "onSpan (SinkLog k sev kvs) = False"
| "onSpan (Annotate sp m) = True"
| "onSpan (Tag sp k v) = True"

section \<open>Printing a value\<close>

text \<open>\<^verbatim>\<open>fmt.Sprint\<close> on one value: a string as it is, an integer in decimal, an error by its
  message, a slice in brackets with its elements separated by spaces.\<close>

definition digit :: "nat \<Rightarrow> char" where
  "digit n = char_of (48 + n)"

function showNat :: "nat \<Rightarrow> string" where
  "showNat n = (if n < 10 then [digit n] else showNat (n div 10) @ [digit (n mod 10)])"
  by pat_completeness auto
termination
  by (relation "measure (\<lambda>n. n)") auto

definition showInt :: "int \<Rightarrow> string" where
  "showInt i = (if i < 0 then CHR ''-'' # showNat (nat (- i)) else showNat (nat i))"

fun joinSpace :: "string list \<Rightarrow> string" where
  "joinSpace [] = []"
| "joinSpace [x] = x"
| "joinSpace (x # y # ys) = x @ '' '' @ joinSpace (y # ys)"

fun Sprint :: "val \<Rightarrow> string" where
  "Sprint (S s) = s"
| "Sprint (I i) = showInt i"
| "Sprint (E m) = m"
| "Sprint (L vs) = ''['' @ joinSpace (map Sprint vs) @ '']''"

section \<open>The level resolver\<close>

text \<open>
  \<^verbatim>\<open>strings.ToLower\<close>: on a string of ASCII bytes only, it replaces the letters A to Z by a
  to z. On any other string Go maps each Unicode character by its table; that mapping is
  the parameter \<open>lower\<close>.
\<close>

definition isASCII :: "char \<Rightarrow> bool" where
  "isASCII c = (of_char c < (128::nat))"

definition asciiLower :: "char \<Rightarrow> char" where
  "asciiLower c =
     (if (65::nat) \<le> of_char c \<and> of_char c \<le> (90::nat) then char_of (of_char c + (32::nat)) else c)"

definition ToLower :: "(string \<Rightarrow> string) \<Rightarrow> string \<Rightarrow> string" where
  "ToLower lower s = (if list_all isASCII s then map asciiLower s else lower s)"

text \<open>The resolver of the tracing variant: the option and the error (\<open>None\<close> is \<^verbatim>\<open>nil\<close>).\<close>

definition evaluateLogLevel :: "(string \<Rightarrow> string) \<Rightarrow> string \<Rightarrow> level_Option \<times> string option" where
  "evaluateLogLevel lower logLevel =
     (let logLevel = ToLower lower logLevel in
      if logLevel = LevelDebug then (AllowDebug, None)
      else if logLevel = LevelInfo then (AllowInfo, None)
      else if logLevel = LevelWarning then (AllowWarn, None)
      else if logLevel = LevelError then (AllowError, None)
      else (AllowAll, Some ''no log-level passed, falling back to debug''))"

text \<open>The resolver of \<^verbatim>\<open>log.go\<close>, which returns the option alone.\<close>

definition evaluateLogLevel_plain :: "(string \<Rightarrow> string) \<Rightarrow> string \<Rightarrow> level_Option" where
  "evaluateLogLevel_plain lower logLevel =
     (let logLevel = ToLower lower logLevel in
      if logLevel = LevelDebug then AllowDebug
      else if logLevel = LevelInfo then AllowInfo
      else if logLevel = LevelWarning then AllowWarn
      else if logLevel = LevelError then AllowError
      else AllowAll)"

text \<open>
  The resolver of \<^verbatim>\<open>log.go\<close> read as a resolver of the contract, which gives a filter and
  an error: its one result is the filter, and it gives its caller no error.
\<close>

definition resolve_plain :: "(string \<Rightarrow> string) \<Rightarrow> string \<Rightarrow> level_Option \<times> string option" where
  "resolve_plain lower logLevel = (evaluateLogLevel_plain lower logLevel, None)"

section \<open>The merger\<close>

text \<open>\<^verbatim>\<open>mergeKeyValues\<close> is the same in both variants and does not read its receiver.\<close>

definition mergeKeyValues :: "string \<Rightarrow> val list \<Rightarrow> val list" where
  "mergeKeyValues message keyvals =
     (let list = [];
          levelData = [];
          levelData = (if message \<noteq> [] then (levelData @ [S MessageKey]) @ [S message] else levelData);
          list = list @ levelData;
          list = list @ keyvals
      in list)"

section \<open>The handle of the tracing variant\<close>

record Log =
  kitLogger :: kitLogger
  span :: "Span option"

text \<open>
  A slice read at an index: Go panics out of range, which is \<open>None\<close> here.
\<close>

definition at :: "'a list \<Rightarrow> nat \<Rightarrow> 'a option" where
  "at xs i = (if i < length xs then Some (xs ! i) else None)"

text \<open>
  The loop of \<^verbatim>\<open>handleTrace\<close>, from index \<open>i\<close> on. The result is the list of the calls made
  on the span, or \<open>None\<close> when an index is out of range. The index is an \<^verbatim>\<open>int\<close> of Go that
  stays below the length of a slice, so it is a natural number here.
\<close>

function tagLoop :: "Span \<Rightarrow> val list \<Rightarrow> nat \<Rightarrow> effect list option" where
  "tagLoop sp keyvals i =
     (if i < length keyvals then
        (if i \<ge> length keyvals \<or> i + 1 \<ge> length keyvals then Some []
         else (case at keyvals i of
                 None \<Rightarrow> None
               | Some k \<Rightarrow>
                  (case at keyvals (i + 1) of
                     None \<Rightarrow> None
                   | Some v \<Rightarrow>
                      (case tagLoop sp keyvals (i + 2) of
                         None \<Rightarrow> None
                       | Some es \<Rightarrow> Some (Tag sp (Sprint k) (Sprint v) # es)))))
      else Some [])"
  by pat_completeness auto
termination
  by (relation "measure (\<lambda>(sp, keyvals, i). length keyvals - i)") auto

declare tagLoop.simps [simp del]

definition handleTrace :: "Log \<Rightarrow> string \<Rightarrow> val list \<Rightarrow> effect list option" where
  "handleTrace l message keyvals =
     (case span l of
        None \<Rightarrow> Some []
      | Some sp \<Rightarrow>
         (case tagLoop sp keyvals 0 of
            None \<Rightarrow> None
          | Some es \<Rightarrow> Some ((if message \<noteq> [] then [Annotate sp message] else []) @ es)))"

text \<open>
  The methods. Each returns the calls it makes, in order, or \<open>None\<close> when it panics. The
  error that the sink returns is dropped by the source (\<^verbatim>\<open>_ =\<close>).
\<close>

definition Log_Log :: "Log \<Rightarrow> val list \<Rightarrow> effect list option" where
  "Log_Log l keyvals =
     (case handleTrace l [] keyvals of
        None \<Rightarrow> None
      | Some es \<Rightarrow> Some (es @ [SinkLog (kitLogger l) None keyvals]))"

definition Log_Debug :: "Log \<Rightarrow> string \<Rightarrow> val list \<Rightarrow> effect list option" where
  "Log_Debug l message keyvals =
     Some [SinkLog (kitLogger l) (Some DebugValue) (mergeKeyValues message keyvals)]"

definition Log_Info :: "Log \<Rightarrow> string \<Rightarrow> val list \<Rightarrow> effect list option" where
  "Log_Info l message keyvals =
     (case handleTrace l message keyvals of
        None \<Rightarrow> None
      | Some es \<Rightarrow> Some (es @ [SinkLog (kitLogger l) (Some InfoValue) (mergeKeyValues message keyvals)]))"

definition Log_Warning :: "Log \<Rightarrow> string \<Rightarrow> val list \<Rightarrow> effect list option" where
  "Log_Warning l message keyvals =
     (case handleTrace l message keyvals of
        None \<Rightarrow> None
      | Some es \<Rightarrow> Some (es @ [SinkLog (kitLogger l) (Some WarnValue) (mergeKeyValues message keyvals)]))"

definition Log_Error :: "Log \<Rightarrow> string \<Rightarrow> val list \<Rightarrow> effect list option" where
  "Log_Error l message keyvals =
     (case handleTrace l message keyvals of
        None \<Rightarrow> None
      | Some es \<Rightarrow> Some (es @ [SinkLog (kitLogger l) (Some ErrorValue) (mergeKeyValues message keyvals)]))"

definition Log_With :: "Log \<Rightarrow> val list \<Rightarrow> Log" where
  "Log_With l keyvals =
     (if length keyvals = 0 then l
      else (let kitLogger' = log_With (kitLogger l) keyvals
            in \<lparr>kitLogger = kitLogger', span = span l\<rparr>))"

text \<open>A context carries a span or none: \<^verbatim>\<open>SpanFromContext\<close> reads it.\<close>

definition SpanFromContext :: "Span option \<Rightarrow> Span option" where
  "SpanFromContext ctx = ctx"

definition Log_WithTrace :: "Log \<Rightarrow> Span option \<Rightarrow> Log" where
  "Log_WithTrace l ctx =
     (case SpanFromContext ctx of
        Some span' \<Rightarrow> \<lparr>kitLogger = kitLogger l, span = Some span'\<rparr>
      | None \<Rightarrow> \<lparr>kitLogger = kitLogger l, span = None\<rparr>)"

text \<open>
  \<^verbatim>\<open>NewLogger\<close> returns the handle and the calls made while it is built: the warning about
  a level that was not recognised.
\<close>

definition NewLogger :: "(string \<Rightarrow> string) \<Rightarrow> string \<Rightarrow> (Log \<times> effect list) option" where
  "NewLogger lower logLevel =
     (let (levelOpt, err) = evaluateLogLevel lower logLevel;
          kitLogger' = JSONLogger;
          kitLogger' = level_NewFilter kitLogger' levelOpt;
          log = \<lparr>kitLogger = kitLogger', span = None\<rparr>
      in case err of
           None \<Rightarrow> Some (log, [])
         | Some e \<Rightarrow>
            (case Log_Warning log [] [S ''err'', E e] of
               None \<Rightarrow> None
             | Some es \<Rightarrow> Some (log, es)))"

text \<open>The environment of the process; \<^verbatim>\<open>os.Getenv\<close> gives the empty string for a variable
  that is not set.\<close>

definition os_Getenv :: "(string \<Rightarrow> string option) \<Rightarrow> string \<Rightarrow> string" where
  "os_Getenv env key = (case env key of None \<Rightarrow> [] | Some v \<Rightarrow> v)"

definition NewLoggerFromEnv :: "(string \<Rightarrow> string) \<Rightarrow> (string \<Rightarrow> string option) \<Rightarrow> (Log \<times> effect list) option" where
  "NewLoggerFromEnv lower env =
     (let levelStr = os_Getenv env EnvironmentVariable in NewLogger lower levelStr)"

text \<open>
  \<^verbatim>\<open>SetLevel\<close> is declared on a value, \<^verbatim>\<open>func (l Log) SetLevel\<close>: its body works on a copy of
  the handle it is called on, and it returns nothing. \<open>SetLevel_local\<close> is the copy when the
  body ends; \<open>Log_SetLevel\<close> is the handle of the caller after the call.
\<close>

definition SetLevel_local :: "(string \<Rightarrow> string) \<Rightarrow> Log \<Rightarrow> string \<Rightarrow> Log" where
  "SetLevel_local lower l logLevel =
     (let (lvl, err) = evaluateLogLevel lower logLevel;
          lvl = (if err \<noteq> None then AllowInfo else lvl)
      in l\<lparr>kitLogger := level_NewFilter (kitLogger l) lvl\<rparr>)"

definition Log_SetLevel :: "(string \<Rightarrow> string) \<Rightarrow> Log \<Rightarrow> string \<Rightarrow> Log" where
  "Log_SetLevel lower l logLevel = (let local = SetLevel_local lower l logLevel in l)"

section \<open>The logger of the package\<close>

text \<open>
  \<^verbatim>\<open>var std = NewLogger("info")\<close> is evaluated when the package is initialised. The
  functions of the package work on the value of \<open>std\<close>: \<open>SetLevel\<close> returns the value
  \<open>std\<close> has after the call, the others return the calls they make.
\<close>

definition std :: "(string \<Rightarrow> string) \<Rightarrow> (Log \<times> effect list) option" where
  "std lower = NewLogger lower ''info''"

definition SetLevel :: "(string \<Rightarrow> string) \<Rightarrow> string \<Rightarrow> Log \<Rightarrow> Log" where
  "SetLevel lower level s = Log_SetLevel lower s level"

definition Info :: "string \<Rightarrow> val list \<Rightarrow> Log \<Rightarrow> effect list option" where
  "Info message keyvals s = Log_Info s message keyvals"

definition Debug :: "string \<Rightarrow> val list \<Rightarrow> Log \<Rightarrow> effect list option" where
  "Debug message keyvals s = Log_Debug s message keyvals"

definition Warning :: "string \<Rightarrow> val list \<Rightarrow> Log \<Rightarrow> effect list option" where
  "Warning message keyvals s = Log_Warning s message keyvals"

definition Error :: "string \<Rightarrow> val list \<Rightarrow> Log \<Rightarrow> effect list option" where
  "Error message keyvals s = Log_Error s message keyvals"

section \<open>The handle of log.go\<close>

text \<open>
  \<^verbatim>\<open>log.go\<close> has no span. Its \<^verbatim>\<open>Log\<close> passes the slice of its arguments to the sink as one
  argument: \<^verbatim>\<open>l.kitLogger.Log(keyvals)\<close>.
\<close>

record Log_plain =
  kitLogger_plain :: kitLogger

definition NewLogger_plain :: "(string \<Rightarrow> string) \<Rightarrow> string \<Rightarrow> Log_plain" where
  "NewLogger_plain lower logLevel =
     (let levelOpt = evaluateLogLevel_plain lower logLevel;
          kitLogger' = JSONLogger;
          kitLogger' = level_NewFilter kitLogger' levelOpt
      in \<lparr>kitLogger_plain = kitLogger'\<rparr>)"

definition Log_Log_plain :: "Log_plain \<Rightarrow> val list \<Rightarrow> effect list" where
  "Log_Log_plain l keyvals = [SinkLog (kitLogger_plain l) None [L keyvals]]"

definition Log_Info_plain :: "Log_plain \<Rightarrow> string \<Rightarrow> val list \<Rightarrow> effect list" where
  "Log_Info_plain l message keyvals =
     [SinkLog (kitLogger_plain l) (Some InfoValue) (mergeKeyValues message keyvals)]"

section \<open>Notions of the specification\<close>

text \<open>
  A case variant of a level name: the name with some of its letters in upper case. For a
  string with a byte outside ASCII, the Unicode mapping of Go decides.
\<close>

definition asciiUpper :: "char \<Rightarrow> char" where
  "asciiUpper c =
     (if (97::nat) \<le> of_char c \<and> of_char c \<le> (122::nat) then char_of (of_char c - (32::nat)) else c)"

definition caseVariant :: "(string \<Rightarrow> string) \<Rightarrow> string \<Rightarrow> string \<Rightarrow> bool" where
  "caseVariant lower name s =
     (if list_all isASCII s then list_all2 (\<lambda>c d. c = d \<or> c = asciiUpper d) s name
      else lower s = name)"

text \<open>The complete pairs of a sequence of key-values; an element left over is not in it.\<close>

fun completePairs :: "val list \<Rightarrow> (val \<times> val) list" where
  "completePairs (k # v # rest) = (k, v) # completePairs rest"
| "completePairs [k] = []"
| "completePairs [] = []"

text \<open>
  The calls on the span that the enrichment is to make: none without a span; with one, the
  annotation of a message that is not empty, then one tag for each complete pair.
\<close>

definition tagOf :: "Span \<Rightarrow> val \<times> val \<Rightarrow> effect" where
  "tagOf sp kv = Tag sp (Sprint (fst kv)) (Sprint (snd kv))"

definition spanCalls :: "Span option \<Rightarrow> string \<Rightarrow> val list \<Rightarrow> effect list" where
  "spanCalls sp message keyvals =
     (case sp of
        None \<Rightarrow> []
      | Some x \<Rightarrow> (if message \<noteq> [] then [Annotate x message] else []) @ map (tagOf x) (completePairs keyvals))"

text \<open>The records that a call gets written, none when it panics.\<close>

definition forwarded :: "effect list option \<Rightarrow> entry list" where
  "forwarded r = (case r of None \<Rightarrow> [] | Some es \<Rightarrow> emitted es)"

text \<open>The sequences that a call hands to the sink.\<close>

definition handed :: "effect list \<Rightarrow> val list list" where
  "handed es = List.map_filter submitted es"

text \<open>The letters a to z.\<close>

definition lowerLetter :: "char \<Rightarrow> bool" where
  "lowerLetter d = ((97::nat) \<le> of_char d \<and> of_char d \<le> (122::nat))"

section \<open>Case variants and the resolver\<close>

lemma of_char_asciiLower:
  "(of_char (asciiLower c) :: nat) =
     (if 65 \<le> (of_char c :: nat) \<and> (of_char c :: nat) \<le> 90 then of_char c + 32 else of_char c)"
  by (simp add: asciiLower_def)

lemma of_char_asciiUpper:
  "(of_char (asciiUpper c) :: nat) =
     (if 97 \<le> (of_char c :: nat) \<and> (of_char c :: nat) \<le> 122 then of_char c - 32 else of_char c)"
proof -
  have "(of_char c :: nat) - 32 < 256"
    using nat_of_char_less_256 [of c] by arith
  then show ?thesis by (simp add: asciiUpper_def)
qed

lemma asciiLower_eq_iff:
  assumes "(97::nat) \<le> of_char d" "of_char d \<le> (122::nat)"
  shows "asciiLower c = d \<longleftrightarrow> (c = d \<or> c = asciiUpper d)"
proof -
  have 1: "asciiLower c = d \<longleftrightarrow> (of_char (asciiLower c) :: nat) = of_char d"
    by (rule of_char_eq_iff [symmetric])
  have 2: "c = d \<longleftrightarrow> (of_char c :: nat) = of_char d"
    by (rule of_char_eq_iff [symmetric])
  have 3: "c = asciiUpper d \<longleftrightarrow> (of_char c :: nat) = of_char (asciiUpper d)"
    by (rule of_char_eq_iff [symmetric])
  show ?thesis
    unfolding 1 2 3 of_char_asciiLower of_char_asciiUpper using assms by presburger
qed

lemma map_asciiLower_eq_iff:
  "list_all lowerLetter name \<Longrightarrow>
   map asciiLower s = name \<longleftrightarrow> list_all2 (\<lambda>c d. c = d \<or> c = asciiUpper d) s name"
proof (induction s arbitrary: name)
  case Nil
  then show ?case by auto
next
  case (Cons c s)
  show ?case
  proof (cases name)
    case Nil
    then show ?thesis by simp
  next
    case (Cons d ds)
    with Cons.prems have "lowerLetter d" and ds: "list_all lowerLetter ds"
      by simp_all
    then have d: "(97::nat) \<le> of_char d" "of_char d \<le> (122::nat)"
      by (simp_all add: lowerLetter_def)
    show ?thesis
      using Cons.IH [OF ds] asciiLower_eq_iff [OF d, of c] Cons by simp
  qed
qed

lemma ToLower_eq_iff:
  "list_all lowerLetter name \<Longrightarrow> ToLower lower s = name \<longleftrightarrow> caseVariant lower name s"
  by (simp add: ToLower_def caseVariant_def map_asciiLower_eq_iff)

lemma names_lower:
  "list_all lowerLetter ''debug''" "list_all lowerLetter ''info''"
  "list_all lowerLetter ''warning''" "list_all lowerLetter ''error''"
  by (simp_all add: lowerLetter_def)

text \<open>
  C4, as stated, fails for the resolver of \<^verbatim>\<open>log.go\<close>: "verbose" is no case variant of a
  level name, and that resolver returns the filter that allows all and no error with it;
  so it does for the empty string. The resolver of the tracing variant returns an error.
\<close>

theorem plain_resolver_gives_no_error:
  "\<not> caseVariant id ''debug'' ''verbose'' \<and> \<not> caseVariant id ''info'' ''verbose'' \<and>
   \<not> caseVariant id ''warning'' ''verbose'' \<and> \<not> caseVariant id ''error'' ''verbose'' \<and>
   evaluateLogLevel_plain id ''verbose'' = AllowAll \<and>
   resolve_plain id ''verbose'' = (AllowAll, None) \<and>
   resolve_plain id [] = (AllowAll, None) \<and>
   snd (resolve_plain id ''verbose'') = None \<and>
   evaluateLogLevel id ''verbose'' = (AllowAll, Some ''no log-level passed, falling back to debug'')"
  by (simp add: caseVariant_def resolve_plain_def evaluateLogLevel_plain_def evaluateLogLevel_def
      ToLower_def isASCII_def asciiLower_def asciiUpper_def
      LevelDebug_def LevelInfo_def LevelWarning_def LevelError_def)

text \<open>
  C4, amended. For every string that is a case variant of "debug", "info", "warning" or
  "error", both resolvers return the filter of that name, and the resolver of the tracing
  variant returns no error; for every other string, the empty one too, both return the
  filter that allows all, and the resolver of the tracing variant returns an error with
  it. The resolver of \<^verbatim>\<open>log.go\<close> returns the filter alone, and no error for any string.
\<close>

theorem evaluateLogLevel_resolves:
  "evaluateLogLevel lower s =
     (if caseVariant lower ''debug'' s then (AllowDebug, None)
      else if caseVariant lower ''info'' s then (AllowInfo, None)
      else if caseVariant lower ''warning'' s then (AllowWarn, None)
      else if caseVariant lower ''error'' s then (AllowError, None)
      else (AllowAll, Some ''no log-level passed, falling back to debug''))
   \<and> evaluateLogLevel lower [] = (AllowAll, Some ''no log-level passed, falling back to debug'')
   \<and> evaluateLogLevel_plain lower s = fst (evaluateLogLevel lower s)
   \<and> evaluateLogLevel_plain lower s =
     (if caseVariant lower ''debug'' s then AllowDebug
      else if caseVariant lower ''info'' s then AllowInfo
      else if caseVariant lower ''warning'' s then AllowWarn
      else if caseVariant lower ''error'' s then AllowError
      else AllowAll)
   \<and> evaluateLogLevel_plain lower [] = AllowAll
   \<and> resolve_plain lower s = (evaluateLogLevel_plain lower s, None)"
  using ToLower_eq_iff [OF names_lower(1), of lower s] ToLower_eq_iff [OF names_lower(2), of lower s]
    ToLower_eq_iff [OF names_lower(3), of lower s] ToLower_eq_iff [OF names_lower(4), of lower s]
  by (simp add: evaluateLogLevel_def evaluateLogLevel_plain_def resolve_plain_def Let_def
      LevelDebug_def LevelInfo_def LevelWarning_def LevelError_def)
    (simp add: ToLower_def)

section \<open>The merged record\<close>

text \<open>
  C5. For a message that is not empty, the merged sequence starts with the key "message"
  and the message, and goes on with the given key-values, unchanged and in their order;
  for the empty message it is the given key-values.
\<close>

theorem mergeKeyValues_spec:
  "(message \<noteq> [] \<longrightarrow>
      take 2 (mergeKeyValues message keyvals) = [S ''message'', S message] \<and>
      drop 2 (mergeKeyValues message keyvals) = keyvals) \<and>
   mergeKeyValues [] keyvals = keyvals"
  by (simp add: mergeKeyValues_def MessageKey_def)

theorem mergeKeyValues_spec_witness:
  "''bad'' \<noteq> [] \<and>
   take 2 (mergeKeyValues ''bad'' [S ''code'', I 500]) = [S ''message'', S ''bad''] \<and>
   drop 2 (mergeKeyValues ''bad'' [S ''code'', I 500]) = [S ''code'', I 500] \<and>
   mergeKeyValues [] [S ''code'', I 500] = [S ''code'', I 500]"
  using mergeKeyValues_spec [of "''bad''" "[S ''code'', I 500]"] by simp

section \<open>The calls of the enrichment\<close>

lemma tagLoop_pairs:
  "tagLoop sp keyvals i = Some (map (tagOf sp) (completePairs (drop i keyvals)))"
proof (induction sp keyvals i rule: tagLoop.induct)
  case (1 sp keyvals i)
  show ?case
  proof (cases "i + 1 < length keyvals")
    case True
    then have d: "drop i keyvals = keyvals ! i # keyvals ! Suc i # drop (Suc (Suc i)) keyvals"
      by (simp add: Cons_nth_drop_Suc)
    have step: "tagLoop sp keyvals i =
        (case tagLoop sp keyvals (Suc (Suc i)) of
           None \<Rightarrow> None
         | Some es \<Rightarrow> Some (Tag sp (Sprint (keyvals ! i)) (Sprint (keyvals ! Suc i)) # es))"
      using True by (subst tagLoop.simps) (simp add: at_def)
    have ih: "tagLoop sp keyvals (Suc (Suc i)) =
        Some (map (tagOf sp) (completePairs (drop (Suc (Suc i)) keyvals)))"
      using True "1.IH" [of "keyvals ! i" "keyvals ! (i + 1)"] by (simp add: at_def)
    show ?thesis
      unfolding step ih d by (simp add: tagOf_def)
  next
    case False
    show ?thesis
    proof (cases "i < length keyvals")
      case True
      with False have "drop i keyvals = [keyvals ! i]"
        by (metis Cons_nth_drop_Suc Suc_eq_plus1 drop_all linorder_not_less)
      with True False show ?thesis
        by (subst tagLoop.simps) simp
    next
      case False
      then show ?thesis
        by (subst tagLoop.simps) simp
    qed
  qed
qed



lemma handleTrace_calls:
  "handleTrace l message keyvals = Some (spanCalls (span l) message keyvals)"
  by (simp add: handleTrace_def spanCalls_def tagLoop_pairs split: option.split)

lemma completePairs_butlast:
  "odd (length keyvals) \<Longrightarrow> completePairs (butlast keyvals) = completePairs keyvals"
  by (induction keyvals rule: completePairs.induct) auto

lemma length_completePairs:
  "length (completePairs keyvals) = length keyvals div 2"
  by (induction keyvals rule: completePairs.induct) auto

section \<open>What the sink writes\<close>

lemma deliver_threshold:
  "deliver k e =
     (if (case severity e of None \<Rightarrow> True | Some v \<Rightarrow> threshold k \<le> rank v)
      then Some (e\<lparr>bound := boundFields k @ bound e\<rparr>) else None)"
  by (induction k arbitrary: e) (auto simp: allowed_def split: option.splits)

lemma list_all_onSpan_spanCalls:
  "list_all onSpan (spanCalls sp message keyvals)"
  by (auto simp: spanCalls_def tagOf_def list_all_iff split: option.split)

lemma emitted_spanCalls:
  "emitted (spanCalls sp message keyvals @ es) = emitted es"
  by (simp add: emitted_def spanCalls_def tagOf_def List.map_filter_def split: option.split)

lemma handed_spanCalls:
  "handed (spanCalls sp message keyvals @ es) = handed es"
  by (simp add: handed_def spanCalls_def tagOf_def List.map_filter_def split: option.split)

lemma emitted_SinkLog:
  "emitted [SinkLog k (Some v) kvs] =
     (if threshold k \<le> rank v then [\<lparr>severity = Some v, bound = boundFields k, pairs = kvs\<rparr>] else [])"
  by (simp add: emitted_def List.map_filter_def deliver_threshold)


lemma forwarded_levelled:
  "forwarded (Some (spanCalls sp message keyvals @ [SinkLog k (Some v) kvs])) =
     (if threshold k \<le> rank v then [\<lparr>severity = Some v, bound = boundFields k, pairs = kvs\<rparr>] else [])"
  unfolding forwarded_def option.case emitted_spanCalls emitted_SinkLog by (rule refl)

section \<open>Handles as they are built\<close>

lemma NewLogger_handle:
  "\<exists>es. NewLogger lower name =
     Some (\<lparr>kitLogger = Filter JSONLogger (fst (evaluateLogLevel lower name)), span = None\<rparr>, es)"
  by (cases "evaluateLogLevel lower name")
    (simp add: NewLogger_def Let_def level_NewFilter_def Log_Warning_def handleTrace_calls split: option.split)

lemma NewLogger_recognised:
  "snd (evaluateLogLevel lower name) = None \<Longrightarrow>
   NewLogger lower name =
     Some (\<lparr>kitLogger = Filter JSONLogger (fst (evaluateLogLevel lower name)), span = None\<rparr>, [])"
  by (cases "evaluateLogLevel lower name") (simp add: NewLogger_def Let_def level_NewFilter_def)

lemma evaluate_warning: "evaluateLogLevel lower ''warning'' = (AllowWarn, None)"
  by (simp add: evaluateLogLevel_def ToLower_def isASCII_def asciiLower_def
      LevelDebug_def LevelInfo_def LevelWarning_def LevelError_def)

lemma evaluate_info: "evaluateLogLevel lower ''info'' = (AllowInfo, None)"
  by (simp add: evaluateLogLevel_def ToLower_def isASCII_def asciiLower_def
      LevelDebug_def LevelInfo_def LevelWarning_def LevelError_def)

lemma evaluate_error: "evaluateLogLevel lower ''error'' = (AllowError, None)"
  by (simp add: evaluateLogLevel_def ToLower_def isASCII_def asciiLower_def
      LevelDebug_def LevelInfo_def LevelWarning_def LevelError_def)

lemma evaluate_empty:
  "evaluateLogLevel lower [] = (AllowAll, Some ''no log-level passed, falling back to debug'')"
  by (simp add: evaluateLogLevel_def ToLower_def
      LevelDebug_def LevelInfo_def LevelWarning_def LevelError_def)

lemma NewLogger_warning:
  "NewLogger lower ''warning'' = Some (\<lparr>kitLogger = Filter JSONLogger AllowWarn, span = None\<rparr>, [])"
  using NewLogger_recognised [of lower "''warning''"] by (simp add: evaluate_warning)

lemma NewLogger_info:
  "NewLogger lower ''info'' = Some (\<lparr>kitLogger = Filter JSONLogger AllowInfo, span = None\<rparr>, [])"
  using NewLogger_recognised [of lower "''info''"] by (simp add: evaluate_info)

lemma NewLogger_empty:
  "NewLogger lower [] =
     Some (\<lparr>kitLogger = Filter JSONLogger AllowAll, span = None\<rparr>,
           [SinkLog (Filter JSONLogger AllowAll) (Some WarnValue)
              [S ''err'', E ''no log-level passed, falling back to debug'']])"
  by (simp add: NewLogger_def Let_def evaluate_empty level_NewFilter_def Log_Warning_def handleTrace_calls
      spanCalls_def mergeKeyValues_def)


lemma Log_SetLevel_same: "Log_SetLevel lower l name = l"
  by (simp add: Log_SetLevel_def)

lemma boundFields_log_With:
  "even (length xs) \<Longrightarrow> boundFields (log_With k xs) = boundFields k @ xs"
  by (simp add: log_With_def)

lemma threshold_log_With: "threshold (log_With k xs) = threshold k"
  by (simp add: log_With_def)

lemma kitLogger_Log_With: "kitLogger (Log_With l xs) = log_With (kitLogger l) xs"
  by (simp add: Log_With_def log_With_def)

lemma span_Log_With: "span (Log_With l xs) = span l"
  by (simp add: Log_With_def)

lemma Log_Log_calls:
  "Log_Log l keyvals = Some (spanCalls (span l) [] keyvals @ [SinkLog (kitLogger l) None keyvals])"
  by (simp add: Log_Log_def handleTrace_calls)

lemma Log_Log_hands_arguments: "\<exists>es. Log_Log l keyvals = Some es \<and> handed es = [keyvals]"
  by (simp add: Log_Log_calls handed_spanCalls) (simp add: handed_def List.map_filter_def)

section \<open>The severity gate\<close>

text \<open>
  C6. A record of a severity is forwarded to the writer iff that severity is at least the
  minimum of the handle at the time of the call: each of the four methods gets its record
  written, with the bound fields and the merged key-values, when the rank of its severity
  reaches the threshold of the handle's logger, and gets nothing written otherwise. The
  threshold of a handle from \<^verbatim>\<open>NewLogger\<close> is the minimum of the filter resolved from the level
  name. On a logger built with "warning", \<^verbatim>\<open>Info("hello")\<close> gets nothing written, and
  \<^verbatim>\<open>Error("bad", "code", 500)\<close> gets the pairs message, bad, code, 500 written.
\<close>

theorem severity_gate:
  "forwarded (Log_Debug l message keyvals) =
     (if threshold (kitLogger l) \<le> rank DebugValue
      then [\<lparr>severity = Some DebugValue, bound = boundFields (kitLogger l), pairs = mergeKeyValues message keyvals\<rparr>]
      else []) \<and>
   forwarded (Log_Info l message keyvals) =
     (if threshold (kitLogger l) \<le> rank InfoValue
      then [\<lparr>severity = Some InfoValue, bound = boundFields (kitLogger l), pairs = mergeKeyValues message keyvals\<rparr>]
      else []) \<and>
   forwarded (Log_Warning l message keyvals) =
     (if threshold (kitLogger l) \<le> rank WarnValue
      then [\<lparr>severity = Some WarnValue, bound = boundFields (kitLogger l), pairs = mergeKeyValues message keyvals\<rparr>]
      else []) \<and>
   forwarded (Log_Error l message keyvals) =
     (if threshold (kitLogger l) \<le> rank ErrorValue
      then [\<lparr>severity = Some ErrorValue, bound = boundFields (kitLogger l), pairs = mergeKeyValues message keyvals\<rparr>]
      else []) \<and>
   (\<exists>h es. NewLogger lower name = Some (h, es) \<and>
      threshold (kitLogger h) = rank (minimum (fst (evaluateLogLevel lower name)))) \<and>
   (\<exists>h. NewLogger lower ''warning'' = Some (h, []) \<and>
      forwarded (Log_Info h ''hello'' []) = [] \<and>
      forwarded (Log_Error h ''bad'' [S ''code'', I 500]) =
        [\<lparr>severity = Some ErrorValue, bound = [], pairs = [S ''message'', S ''bad'', S ''code'', I 500]\<rparr>])"
proof -
  have d: "forwarded (Log_Debug l message keyvals) =
     (if threshold (kitLogger l) \<le> rank DebugValue
      then [\<lparr>severity = Some DebugValue, bound = boundFields (kitLogger l), pairs = mergeKeyValues message keyvals\<rparr>]
      else [])"
    unfolding Log_Debug_def forwarded_def option.case emitted_SinkLog by (rule refl)
  have lv: "\<And>h m kvs. forwarded (Log_Info h m kvs) =
     (if threshold (kitLogger h) \<le> rank InfoValue
      then [\<lparr>severity = Some InfoValue, bound = boundFields (kitLogger h), pairs = mergeKeyValues m kvs\<rparr>]
      else [])"
      "\<And>h m kvs. forwarded (Log_Warning h m kvs) =
     (if threshold (kitLogger h) \<le> rank WarnValue
      then [\<lparr>severity = Some WarnValue, bound = boundFields (kitLogger h), pairs = mergeKeyValues m kvs\<rparr>]
      else [])"
      "\<And>h m kvs. forwarded (Log_Error h m kvs) =
     (if threshold (kitLogger h) \<le> rank ErrorValue
      then [\<lparr>severity = Some ErrorValue, bound = boundFields (kitLogger h), pairs = mergeKeyValues m kvs\<rparr>]
      else [])"
    unfolding Log_Info_def Log_Warning_def Log_Error_def handleTrace_calls option.case forwarded_levelled
    by (rule refl)+
  have n: "\<exists>h es. NewLogger lower name = Some (h, es) \<and>
      threshold (kitLogger h) = rank (minimum (fst (evaluateLogLevel lower name)))"
    using NewLogger_handle [of lower name] by auto
  have w: "\<exists>h. NewLogger lower ''warning'' = Some (h, []) \<and>
      forwarded (Log_Info h ''hello'' []) = [] \<and>
      forwarded (Log_Error h ''bad'' [S ''code'', I 500]) =
        [\<lparr>severity = Some ErrorValue, bound = [], pairs = [S ''message'', S ''bad'', S ''code'', I 500]\<rparr>]"
    unfolding NewLogger_warning lv by (simp add: mergeKeyValues_def MessageKey_def)
  show ?thesis
    using d lv [of l message keyvals] n w by (intro conjI)
qed


section \<open>Setting the level\<close>

text \<open>
  C1. After \<^verbatim>\<open>SetLevel("error")\<close> on the logger of the package, which was built with "info",
  the handle is the one it was: its logger is still the "info" filter alone, and
  \<^verbatim>\<open>Info("x")\<close> is still written. The filter for "error" is put on the copy that the method
  works on, where it would have discarded the record.
\<close>

theorem SetLevel_leaves_filter:
  "std lower = Some (\<lparr>kitLogger = Filter JSONLogger AllowInfo, span = None\<rparr>, []) \<and>
   SetLevel lower ''error'' \<lparr>kitLogger = Filter JSONLogger AllowInfo, span = None\<rparr> =
     \<lparr>kitLogger = Filter JSONLogger AllowInfo, span = None\<rparr> \<and>
   SetLevel_local lower \<lparr>kitLogger = Filter JSONLogger AllowInfo, span = None\<rparr> ''error'' =
     \<lparr>kitLogger = Filter (Filter JSONLogger AllowInfo) AllowError, span = None\<rparr> \<and>
   forwarded (Info ''x'' [] (SetLevel lower ''error'' \<lparr>kitLogger = Filter JSONLogger AllowInfo, span = None\<rparr>)) =
     [\<lparr>severity = Some InfoValue, bound = [], pairs = [S ''message'', S ''x'']\<rparr>] \<and>
   forwarded (Info ''x'' [] (SetLevel_local lower \<lparr>kitLogger = Filter JSONLogger AllowInfo, span = None\<rparr> ''error'')) = []"
  by (simp add: std_def NewLogger_info SetLevel_def Log_SetLevel_same SetLevel_local_def evaluate_error
      level_NewFilter_def Info_def Log_Info_def handleTrace_calls forwarded_levelled
      mergeKeyValues_def MessageKey_def)

section \<open>The logger of the package and the environment\<close>

text \<open>
  C2, as stated, fails: with \<^verbatim>\<open>LOG_LEVEL\<close> not set, the logger of the package has the "info"
  filter, not the filter that \<^verbatim>\<open>NewLoggerFromEnv\<close> resolves from the environment, and a
  \<^verbatim>\<open>Debug\<close> call through it gets nothing written.
\<close>

theorem std_not_from_environment:
  "os_Getenv Map.empty EnvironmentVariable = [] \<and>
   std id = Some (\<lparr>kitLogger = Filter JSONLogger AllowInfo, span = None\<rparr>, []) \<and>
   map_option fst (NewLoggerFromEnv id Map.empty) = Some \<lparr>kitLogger = Filter JSONLogger AllowAll, span = None\<rparr> \<and>
   map_option fst (std id) \<noteq> map_option fst (NewLoggerFromEnv id Map.empty) \<and>
   forwarded (Debug ''x'' [] \<lparr>kitLogger = Filter JSONLogger AllowInfo, span = None\<rparr>) = []"
  by (simp add: os_Getenv_def std_def NewLogger_info NewLoggerFromEnv_def NewLogger_empty
      Debug_def Log_Debug_def forwarded_def emitted_SinkLog)

text \<open>
  C2, amended. The logger of the package is built by \<^verbatim>\<open>NewLogger("info")\<close>, whatever the
  environment holds: its filter discards \<^verbatim>\<open>Debug\<close> and lets \<^verbatim>\<open>Info\<close>, \<^verbatim>\<open>Warning\<close> and \<^verbatim>\<open>Error\<close>
  through. A logger built by \<^verbatim>\<open>NewLoggerFromEnv\<close> is the one \<^verbatim>\<open>NewLogger\<close> builds from the value
  of \<^verbatim>\<open>LOG_LEVEL\<close>: when the variable is set, its filter is the one resolved from the value;
  when it is not set, its filter is the one that allows all, and every severity from
  \<^verbatim>\<open>Debug\<close> to \<^verbatim>\<open>Error\<close> gets written.
\<close>

theorem std_built_with_info:
  "std lower = Some (\<lparr>kitLogger = Filter JSONLogger AllowInfo, span = None\<rparr>, []) \<and>
   forwarded (Debug message keyvals \<lparr>kitLogger = Filter JSONLogger AllowInfo, span = None\<rparr>) = [] \<and>
   forwarded (Info message keyvals \<lparr>kitLogger = Filter JSONLogger AllowInfo, span = None\<rparr>) =
     [\<lparr>severity = Some InfoValue, bound = [], pairs = mergeKeyValues message keyvals\<rparr>] \<and>
   forwarded (Warning message keyvals \<lparr>kitLogger = Filter JSONLogger AllowInfo, span = None\<rparr>) =
     [\<lparr>severity = Some WarnValue, bound = [], pairs = mergeKeyValues message keyvals\<rparr>] \<and>
   forwarded (Error message keyvals \<lparr>kitLogger = Filter JSONLogger AllowInfo, span = None\<rparr>) =
     [\<lparr>severity = Some ErrorValue, bound = [], pairs = mergeKeyValues message keyvals\<rparr>] \<and>
   NewLogger lower (os_Getenv env EnvironmentVariable) = NewLoggerFromEnv lower env \<and>
   (env EnvironmentVariable = Some v \<longrightarrow>
      (\<exists>es. NewLoggerFromEnv lower env =
         Some (\<lparr>kitLogger = Filter JSONLogger (fst (evaluateLogLevel lower v)), span = None\<rparr>, es)) \<and>
      threshold (Filter JSONLogger (fst (evaluateLogLevel lower v))) =
        rank (minimum (fst (evaluateLogLevel lower v)))) \<and>
   (env EnvironmentVariable = None \<longrightarrow>
      (\<exists>es. NewLoggerFromEnv lower env = Some (\<lparr>kitLogger = Filter JSONLogger AllowAll, span = None\<rparr>, es)) \<and>
      fst (evaluateLogLevel lower []) = AllowAll \<and>
      forwarded (Log_Debug \<lparr>kitLogger = Filter JSONLogger AllowAll, span = None\<rparr> message keyvals) =
        [\<lparr>severity = Some DebugValue, bound = [], pairs = mergeKeyValues message keyvals\<rparr>] \<and>
      forwarded (Log_Info \<lparr>kitLogger = Filter JSONLogger AllowAll, span = None\<rparr> message keyvals) =
        [\<lparr>severity = Some InfoValue, bound = [], pairs = mergeKeyValues message keyvals\<rparr>] \<and>
      forwarded (Log_Warning \<lparr>kitLogger = Filter JSONLogger AllowAll, span = None\<rparr> message keyvals) =
        [\<lparr>severity = Some WarnValue, bound = [], pairs = mergeKeyValues message keyvals\<rparr>] \<and>
      forwarded (Log_Error \<lparr>kitLogger = Filter JSONLogger AllowAll, span = None\<rparr> message keyvals) =
        [\<lparr>severity = Some ErrorValue, bound = [], pairs = mergeKeyValues message keyvals\<rparr>])"
proof -
  have set: "env EnvironmentVariable = Some v \<longrightarrow>
      (\<exists>es. NewLoggerFromEnv lower env =
         Some (\<lparr>kitLogger = Filter JSONLogger (fst (evaluateLogLevel lower v)), span = None\<rparr>, es))"
    using NewLogger_handle [of lower v] by (simp add: NewLoggerFromEnv_def os_Getenv_def)
  show ?thesis
    using set
    by (simp add: std_def NewLogger_info NewLoggerFromEnv_def os_Getenv_def NewLogger_empty
      Debug_def Info_def Warning_def Error_def
      Log_Debug_def Log_Info_def Log_Warning_def Log_Error_def handleTrace_calls
      forwarded_levelled evaluate_empty) (simp add: forwarded_def emitted_SinkLog)
qed

theorem std_built_with_info_witness:
  "(Map.empty :: string \<Rightarrow> string option) EnvironmentVariable = None \<and>
   (Map.empty(EnvironmentVariable \<mapsto> ''error'')) EnvironmentVariable = Some ''error'' \<and>
   std id = Some (\<lparr>kitLogger = Filter JSONLogger AllowInfo, span = None\<rparr>, []) \<and>
   forwarded (Debug ''x'' [] \<lparr>kitLogger = Filter JSONLogger AllowInfo, span = None\<rparr>) = [] \<and>
   forwarded (Info ''x'' [] \<lparr>kitLogger = Filter JSONLogger AllowInfo, span = None\<rparr>) =
     [\<lparr>severity = Some InfoValue, bound = [], pairs = [S ''message'', S ''x'']\<rparr>] \<and>
   (\<exists>es. NewLoggerFromEnv id Map.empty = Some (\<lparr>kitLogger = Filter JSONLogger AllowAll, span = None\<rparr>, es)) \<and>
   forwarded (Log_Debug \<lparr>kitLogger = Filter JSONLogger AllowAll, span = None\<rparr> ''x'' []) =
     [\<lparr>severity = Some DebugValue, bound = [], pairs = [S ''message'', S ''x'']\<rparr>] \<and>
   (\<exists>es. NewLoggerFromEnv id (Map.empty(EnvironmentVariable \<mapsto> ''error'')) =
      Some (\<lparr>kitLogger = Filter JSONLogger AllowError, span = None\<rparr>, es)) \<and>
   threshold (Filter JSONLogger AllowError) = rank ErrorValue"
  using std_built_with_info [of id "''x''" "[]" Map.empty] 
    std_built_with_info [of id "''x''" "[]" "Map.empty(EnvironmentVariable \<mapsto> ''error'')" "''error''"]
  by (simp add: mergeKeyValues_def MessageKey_def evaluate_error)

section \<open>Log without a severity\<close>

text \<open>
  C3. \<^verbatim>\<open>Log\<close> of \<^verbatim>\<open>log.go\<close> hands the sink one sequence with one element, the slice of its
  arguments, which is never the sequence of the arguments itself: for \<^verbatim>\<open>Log("k", "v")\<close> the
  sink gets the one element \<^verbatim>\<open>["k", "v"]\<close>. (\<open>Log_Log_hands_arguments\<close> above: \<^verbatim>\<open>Log\<close> of the
  tracing variant hands the sink its arguments as they are.)
\<close>

theorem Log_Log_plain_hands_one_slice:
  "handed (Log_Log_plain (NewLogger_plain lower ''info'') [S ''k'', S ''v'']) = [[L [S ''k'', S ''v'']]] \<and>
   handed (Log_Log_plain l keyvals) = [[L keyvals]] \<and>
   [L keyvals] \<noteq> keyvals"
proof -
  have "size_list size [L keyvals] \<noteq> size_list size keyvals"
    by simp
  then have "[L keyvals] \<noteq> keyvals"
    by metis
  then show ?thesis
    by (simp add: Log_Log_plain_def handed_def List.map_filter_def)
qed

section \<open>Binding fields\<close>

text \<open>
  C7. \<^verbatim>\<open>With()\<close> with no arguments returns the receiver. \<^verbatim>\<open>With(a, b).With(c, d)\<close> gives a
  handle whose bound fields are those of the receiver followed by a, b, c, d; so it is for
  any two sequences of even length. Binding fields leaves the threshold as it was.
\<close>

theorem With_accumulates:
  "Log_With l [] = l \<and>
   boundFields (kitLogger (Log_With (Log_With l [a, b]) [c, d])) = boundFields (kitLogger l) @ [a, b, c, d] \<and>
   (even (length xs) \<and> even (length ys) \<longrightarrow>
      boundFields (kitLogger (Log_With (Log_With l xs) ys)) = boundFields (kitLogger l) @ xs @ ys) \<and>
   threshold (kitLogger (Log_With l xs)) = threshold (kitLogger l)"
  by (simp add: kitLogger_Log_With boundFields_log_With threshold_log_With) (simp add: Log_With_def)

theorem With_accumulates_witness:
  "Log_With \<lparr>kitLogger = Filter JSONLogger AllowWarn, span = None\<rparr> [] =
     \<lparr>kitLogger = Filter JSONLogger AllowWarn, span = None\<rparr> \<and>
   even (length [S ''a'', I 1]) \<and> even (length [S ''c'', I 2, S ''e'', I 3]) \<and>
   boundFields (kitLogger (Log_With (Log_With \<lparr>kitLogger = Filter JSONLogger AllowWarn, span = None\<rparr>
      [S ''a'', I 1]) [S ''c'', I 2, S ''e'', I 3])) = [S ''a'', I 1, S ''c'', I 2, S ''e'', I 3] \<and>
   forwarded (Log_Error (Log_With (Log_With \<lparr>kitLogger = Filter JSONLogger AllowWarn, span = None\<rparr>
      [S ''a'', I 1]) [S ''c'', I 2]) ''bad'' []) =
     [\<lparr>severity = Some ErrorValue, bound = [S ''a'', I 1, S ''c'', I 2], pairs = [S ''message'', S ''bad'']\<rparr>]"
  using With_accumulates [of "\<lparr>kitLogger = Filter JSONLogger AllowWarn, span = None\<rparr>"
      "S ''a''" "I 1" "S ''c''" "I 2" "[S ''a'', I 1]" "[S ''c'', I 2, S ''e'', I 3]"]
  by (simp add: Log_Error_def handleTrace_calls forwarded_levelled mergeKeyValues_def MessageKey_def
      kitLogger_Log_With threshold_log_With)


section \<open>Key-values of odd length\<close>

lemma mergeKeyValues_snoc:
  "keyvals \<noteq> [] \<Longrightarrow>
   mergeKeyValues message keyvals = mergeKeyValues message (butlast keyvals) @ [last keyvals]"
  by (simp add: mergeKeyValues_def)

text \<open>
  C8. For key-values of odd length, a severity call returns without a panic and hands the
  sink the whole record, the element left over last; the tags on a bound span are those
  of the complete pairs, which are all the elements but the last one.
\<close>

theorem odd_pairs_go_to_sink_untagged:
  "odd (length keyvals) \<longrightarrow>
     Log_Debug l message keyvals =
       Some [SinkLog (kitLogger l) (Some DebugValue) (mergeKeyValues message (butlast keyvals) @ [last keyvals])] \<and>
     Log_Info l message keyvals =
       Some (spanCalls (span l) message (butlast keyvals) @
             [SinkLog (kitLogger l) (Some InfoValue) (mergeKeyValues message (butlast keyvals) @ [last keyvals])]) \<and>
     Log_Warning l message keyvals =
       Some (spanCalls (span l) message (butlast keyvals) @
             [SinkLog (kitLogger l) (Some WarnValue) (mergeKeyValues message (butlast keyvals) @ [last keyvals])]) \<and>
     Log_Error l message keyvals =
       Some (spanCalls (span l) message (butlast keyvals) @
             [SinkLog (kitLogger l) (Some ErrorValue) (mergeKeyValues message (butlast keyvals) @ [last keyvals])]) \<and>
     length (completePairs (butlast keyvals)) * 2 = length (butlast keyvals)"
proof
  assume o: "odd (length keyvals)"
  then have ne: "keyvals \<noteq> []"
    by auto
  have sc: "spanCalls (span l) message (butlast keyvals) = spanCalls (span l) message keyvals"
    unfolding spanCalls_def completePairs_butlast [OF o] by (rule refl)
  have len: "length (completePairs (butlast keyvals)) * 2 = length (butlast keyvals)"
    using o by (simp add: length_completePairs)
  show "Log_Debug l message keyvals =
       Some [SinkLog (kitLogger l) (Some DebugValue) (mergeKeyValues message (butlast keyvals) @ [last keyvals])] \<and>
     Log_Info l message keyvals =
       Some (spanCalls (span l) message (butlast keyvals) @
             [SinkLog (kitLogger l) (Some InfoValue) (mergeKeyValues message (butlast keyvals) @ [last keyvals])]) \<and>
     Log_Warning l message keyvals =
       Some (spanCalls (span l) message (butlast keyvals) @
             [SinkLog (kitLogger l) (Some WarnValue) (mergeKeyValues message (butlast keyvals) @ [last keyvals])]) \<and>
     Log_Error l message keyvals =
       Some (spanCalls (span l) message (butlast keyvals) @
             [SinkLog (kitLogger l) (Some ErrorValue) (mergeKeyValues message (butlast keyvals) @ [last keyvals])]) \<and>
     length (completePairs (butlast keyvals)) * 2 = length (butlast keyvals)"
    using len
    by (simp add: Log_Debug_def Log_Info_def Log_Warning_def Log_Error_def handleTrace_calls sc
        mergeKeyValues_snoc [OF ne, symmetric])
qed

theorem odd_pairs_go_to_sink_untagged_witness:
  "odd (length [S ''onlykey'']) \<and>
   Log_Info \<lparr>kitLogger = Filter JSONLogger AllowInfo, span = Some 7\<rparr> ''m'' [S ''onlykey''] =
     Some [Annotate 7 ''m'',
           SinkLog (Filter JSONLogger AllowInfo) (Some InfoValue) [S ''message'', S ''m'', S ''onlykey'']] \<and>
   odd (length [S ''k'', S ''v'', S ''onlykey'']) \<and>
   Log_Error \<lparr>kitLogger = Filter JSONLogger AllowInfo, span = Some 7\<rparr> [] [S ''k'', S ''v'', S ''onlykey''] =
     Some [Tag 7 ''k'' ''v'',
           SinkLog (Filter JSONLogger AllowInfo) (Some ErrorValue) [S ''k'', S ''v'', S ''onlykey'']]"
  using odd_pairs_go_to_sink_untagged [of "[S ''onlykey'']"
      "\<lparr>kitLogger = Filter JSONLogger AllowInfo, span = Some 7\<rparr>" "''m''"]
    odd_pairs_go_to_sink_untagged [of "[S ''k'', S ''v'', S ''onlykey'']"
      "\<lparr>kitLogger = Filter JSONLogger AllowInfo, span = Some 7\<rparr>" "[]"]
  by (simp add: spanCalls_def tagOf_def mergeKeyValues_def MessageKey_def)

section \<open>Enrichment is best effort\<close>

text \<open>
  C9. Without a span, the enrichment makes no call. With or without one, it returns, it
  calls nothing but the span, and the call on the sink follows it with the record: so for
  \<^verbatim>\<open>Info\<close>, \<^verbatim>\<open>Warning\<close>, \<^verbatim>\<open>Error\<close> and \<^verbatim>\<open>Log\<close>.
\<close>

theorem enrichment_never_blocks:
  "(span l = None \<longrightarrow> handleTrace l message keyvals = Some []) \<and>
   (\<exists>es. handleTrace l message keyvals = Some es \<and> list_all onSpan es \<and>
      Log_Info l message keyvals =
        Some (es @ [SinkLog (kitLogger l) (Some InfoValue) (mergeKeyValues message keyvals)]) \<and>
      Log_Warning l message keyvals =
        Some (es @ [SinkLog (kitLogger l) (Some WarnValue) (mergeKeyValues message keyvals)]) \<and>
      Log_Error l message keyvals =
        Some (es @ [SinkLog (kitLogger l) (Some ErrorValue) (mergeKeyValues message keyvals)])) \<and>
   (\<exists>es. handleTrace l [] keyvals = Some es \<and> list_all onSpan es \<and>
      Log_Log l keyvals = Some (es @ [SinkLog (kitLogger l) None keyvals]))"
  by (simp add: handleTrace_calls list_all_onSpan_spanCalls Log_Info_def Log_Warning_def Log_Error_def
      Log_Log_def) (simp add: spanCalls_def)

theorem enrichment_never_blocks_witness:
  "span \<lparr>kitLogger = Filter JSONLogger AllowInfo, span = None\<rparr> = None \<and>
   handleTrace \<lparr>kitLogger = Filter JSONLogger AllowInfo, span = None\<rparr> ''m'' [S ''k'', S ''v''] = Some [] \<and>
   Log_Info \<lparr>kitLogger = Filter JSONLogger AllowInfo, span = None\<rparr> ''m'' [S ''k'', S ''v''] =
     Some [SinkLog (Filter JSONLogger AllowInfo) (Some InfoValue) [S ''message'', S ''m'', S ''k'', S ''v'']]"
  using enrichment_never_blocks [of "\<lparr>kitLogger = Filter JSONLogger AllowInfo, span = None\<rparr>"
      "''m''" "[S ''k'', S ''v'']"]
  by (auto simp: mergeKeyValues_def MessageKey_def)

section \<open>Binding fields keeps the span\<close>

text \<open>
  C10. For key-values that are not empty, the handle that \<^verbatim>\<open>With\<close> returns has the span of
  the receiver, and its logger is the receiver's with the key-values bound.
\<close>

theorem With_keeps_span:
  "keyvals \<noteq> [] \<Longrightarrow>
   span (Log_With l keyvals) = span l \<and>
   kitLogger (Log_With l keyvals) = log_With (kitLogger l) keyvals \<and>
   kitLogger (Log_With l keyvals) \<noteq> kitLogger l"
proof -
  assume ne: "keyvals \<noteq> []"
  have "size (log_With k keyvals) \<noteq> size k" for k
    using ne by (simp add: log_With_def)
  then have "log_With (kitLogger l) keyvals \<noteq> kitLogger l"
    by metis
  then show ?thesis
    by (simp add: span_Log_With kitLogger_Log_With)
qed

theorem With_keeps_span_witness:
  "[S ''a'', I 1] \<noteq> [] \<and>
   span (Log_With \<lparr>kitLogger = Filter JSONLogger AllowInfo, span = Some 7\<rparr> [S ''a'', I 1]) = Some 7 \<and>
   kitLogger (Log_With \<lparr>kitLogger = Filter JSONLogger AllowInfo, span = Some 7\<rparr> [S ''a'', I 1]) =
     Context (Filter JSONLogger AllowInfo) [S ''a'', I 1]"
  using With_keeps_span [of "[S ''a'', I 1]" "\<lparr>kitLogger = Filter JSONLogger AllowInfo, span = Some 7\<rparr>"]
  by (simp add: log_With_def)

end
